theory Spec2Isabelle
  imports Main
begin

section \<open>Python values the handlers compute with\<close>

text \<open>
  The exceptions that can leave a function of \<^verbatim>\<open>app.py\<close>. A handler that lets one of
  them escape answers with the framework's generic server fault (status 500); the model
  keeps the exception itself as the outcome.
\<close>

datatype exn =
    IntegrityError
  | OverflowError
  | ValueError
  | AttributeError
  | PermissionError
  | FileNotFoundError

text \<open>
  A Python \<^verbatim>\<open>str\<close> is modelled by \<^typ>\<open>string\<close>, each \<^typ>\<open>char\<close> standing for the
  code point of the same number (U+0000 to U+00FF). A value that may be \<^verbatim>\<open>None\<close>
  (a JSON field or a form field read with \<^verbatim>\<open>.get\<close>) is a \<^typ>\<open>string option\<close>.
\<close>

definition code_point :: "char \<Rightarrow> nat" where
  "code_point c = of_char c"

text \<open>
  \<^verbatim>\<open>str.isdigit\<close>: true when the string is not empty and every character is a digit.
  Below U+0100 the digits are \<^verbatim>\<open>0\<close> to \<^verbatim>\<open>9\<close> and the superscripts
  U+00B2, U+00B3 and U+00B9.
\<close>

definition isdigit_char :: "char \<Rightarrow> bool" where
  "isdigit_char c =
     (let n = code_point c
      in (48 \<le> n \<and> n \<le> 57) \<or> n = 178 \<or> n = 179 \<or> n = 185)"

definition isdigit :: "string \<Rightarrow> bool" where
  "isdigit s = (s \<noteq> [] \<and> list_all isdigit_char s)"

text \<open>
  \<^verbatim>\<open>int(s)\<close> for a string without sign, blank or underscore, which is all that
  \<^verbatim>\<open>upload_song\<close> passes on after its \<^verbatim>\<open>isdigit\<close> test: the decimal value when every
  character is one of \<^verbatim>\<open>0\<close> to \<^verbatim>\<open>9\<close>, \<^verbatim>\<open>ValueError\<close> otherwise.
\<close>

definition decimal_char :: "char \<Rightarrow> bool" where
  "decimal_char c = (48 \<le> code_point c \<and> code_point c \<le> 57)"

definition digit_value :: "char \<Rightarrow> int" where
  "digit_value c = int (code_point c) - 48"

definition py_int :: "string \<Rightarrow> exn + int" where
  "py_int s =
     (if s \<noteq> [] \<and> list_all decimal_char s
      then Inr (foldl (\<lambda>a c. 10 * a + digit_value c) 0 s)
      else Inl ValueError)"

text \<open>\<^verbatim>\<open>str.lower\<close> below U+0100: the letters A to Z and U+00C0 to U+00DE without U+00D7.\<close>

definition lower_char :: "char \<Rightarrow> char" where
  "lower_char c =
     (let n = code_point c
      in if (65 \<le> n \<and> n \<le> 90) \<or> (192 \<le> n \<and> n \<le> 222 \<and> n \<noteq> 215)
         then char_of (n + 32) else c)"

definition lower :: "string \<Rightarrow> string" where
  "lower s = map lower_char s"

text \<open>\<^verbatim>\<open>s.rsplit('.', 1)[1]\<close> for a string that holds a dot: what follows the last dot.\<close>

definition rsplit_dot_last :: "string \<Rightarrow> string" where
  "rsplit_dot_last s = rev (takeWhile (\<lambda>c. c \<noteq> CHR ''.'') (rev s))"

section \<open>Collaborators outside the repository\<close>

text \<open>
  \<^verbatim>\<open>config.py\<close> and the werkzeug helpers are not part of the sources, so they are
  parameters of the model. \<^verbatim>\<open>generate_password_hash\<close> draws a fresh salt at each call;
  the salt is its first argument here. \<^verbatim>\<open>secure_filename\<close> returns a plain file name,
  which \<^verbatim>\<open>os.path.join(SONG_DIRECTORY, name)\<close> turns into the entry \<^verbatim>\<open>name\<close> of the
  song directory.
\<close>

record collaborators =
  ALLOWED_EXTENSIONS :: "string list"
  secure_filename :: "string \<Rightarrow> string"
  generate_password_hash :: "string \<Rightarrow> string \<Rightarrow> string"
  check_password_hash :: "string \<Rightarrow> string \<Rightarrow> bool"

section \<open>The database\<close>

text \<open>
  Two tables, as \<^verbatim>\<open>init_db\<close> creates them. Rows are kept in insertion order. Both
  primary keys are \<^verbatim>\<open>AUTOINCREMENT\<close>: the table remembers the largest key it ever
  gave out (\<open>songs_seq\<close>, \<open>users_seq\<close>), and a new row gets one more than the larger of
  that and the keys present. Keys are naturals; the ceiling of 2^63 - 1 rows is not
  modelled.
\<close>

record song_row =
  song_id :: nat
  title :: string
  author :: string
  duration :: int
  music_file_url :: string

record user_row =
  user_id :: nat
  username :: string
  password :: string

record database =
  songs :: "song_row list"
  songs_seq :: nat
  users :: "user_row list"
  users_seq :: nat

definition next_rowid :: "nat \<Rightarrow> nat list \<Rightarrow> nat" where
  "next_rowid seq ids = Suc (fold max ids seq)"

subsection \<open>DatabaseService\<close>

text \<open>
  \<^verbatim>\<open>add_song\<close>: binding an integer outside the signed 64-bit range raises
  \<^verbatim>\<open>OverflowError\<close>; a \<^verbatim>\<open>None\<close> in a \<^verbatim>\<open>NOT NULL\<close> column raises
  \<^verbatim>\<open>IntegrityError\<close>. The function has no handler, so either leaves it. The result is
  \<^verbatim>\<open>cursor.lastrowid\<close> with the database after the commit.
\<close>

definition add_song ::
  "database \<Rightarrow> string option \<Rightarrow> string option \<Rightarrow> int \<Rightarrow> string \<Rightarrow> exn + (nat \<times> database)" where
  "add_song d t a dur url =
     (if dur < - (2 ^ 63) \<or> 2 ^ 63 \<le> dur then Inl OverflowError
      else case t of
        None \<Rightarrow> Inl IntegrityError
      | Some t' \<Rightarrow>
          (case a of
             None \<Rightarrow> Inl IntegrityError
           | Some a' \<Rightarrow>
               (let i = next_rowid (songs_seq d) (map song_id (songs d))
                in Inr (i, d\<lparr>songs := songs d @
                              [\<lparr>song_id = i, title = t', author = a', duration = dur,
                                music_file_url = url\<rparr>],
                            songs_seq := i\<rparr>))))"

definition get_song :: "database \<Rightarrow> nat \<Rightarrow> (string \<times> string \<times> int \<times> string) option" where
  "get_song d i =
     map_option (\<lambda>r. (title r, author r, duration r, music_file_url r))
       (find (\<lambda>r. song_id r = i) (songs d))"

definition get_all_songs_rows ::
  "database \<Rightarrow> (nat \<times> string \<times> string \<times> int \<times> string) list" where
  "get_all_songs_rows d =
     map (\<lambda>r. (song_id r, title r, author r, duration r, music_file_url r)) (songs d)"

subsection \<open>AuthService\<close>

text \<open>
  The \<^verbatim>\<open>INSERT\<close> of \<^verbatim>\<open>register_user\<close>: the \<^verbatim>\<open>UNIQUE\<close> constraint on
  \<^verbatim>\<open>username\<close> raises \<^verbatim>\<open>IntegrityError\<close> and leaves the table as it was.
\<close>

definition insert_user :: "database \<Rightarrow> string \<Rightarrow> string \<Rightarrow> exn + database" where
  "insert_user d u h =
     (if list_ex (\<lambda>r. username r = u) (users d) then Inl IntegrityError
      else (let i = next_rowid (users_seq d) (map user_id (users d))
            in Inr (d\<lparr>users := users d @ [\<lparr>user_id = i, username = u, password = h\<rparr>],
                      users_seq := i\<rparr>)))"

definition register_user ::
  "collaborators \<Rightarrow> string \<Rightarrow> database \<Rightarrow> string \<Rightarrow> string \<Rightarrow> bool \<times> database" where
  "register_user W salt d u p =
     (let hashed_password = generate_password_hash W salt p
      in case insert_user d u hashed_password of
           Inr d' \<Rightarrow> (True, d')
         | Inl e \<Rightarrow> (False, d))"

text \<open>
  \<^verbatim>\<open>verify_user\<close>. A \<^verbatim>\<open>None\<close> username compares equal to no row. When a row is found,
  \<^verbatim>\<open>check_password_hash\<close> is called with whatever password came in; it encodes the
  password before hashing, so \<^verbatim>\<open>None\<close> raises \<^verbatim>\<open>AttributeError\<close> there. The result
  is the row's id, or \<^verbatim>\<open>None\<close>.
\<close>

definition verify_user ::
  "collaborators \<Rightarrow> database \<Rightarrow> string option \<Rightarrow> string option \<Rightarrow> exn + nat option" where
  "verify_user W d u p =
     (let user = (case u of None \<Rightarrow> None
                  | Some u' \<Rightarrow> find (\<lambda>r. username r = u') (users d))
      in case user of
           None \<Rightarrow> Inr None
         | Some r \<Rightarrow>
             (case p of
                None \<Rightarrow> Inl AttributeError
              | Some p' \<Rightarrow>
                  if check_password_hash W (password r) p' then Inr (Some (user_id r))
                  else Inr None))"

definition get_username_by_id :: "database \<Rightarrow> nat \<Rightarrow> string option" where
  "get_username_by_id d i = map_option username (find (\<lambda>r. user_id r = i) (users d))"

definition allowed_file :: "collaborators \<Rightarrow> string \<Rightarrow> bool" where
  "allowed_file W filename =
     (CHR ''.'' \<in> set filename \<and>
      lower (rsplit_dot_last filename) \<in> set (ALLOWED_EXTENSIONS W))"

section \<open>The song directory\<close>

text \<open>
  The blobs under \<^verbatim>\<open>SONG_DIRECTORY\<close>, by file name. Each entry carries its bytes and
  whether the operating system lets this process unlink it (it does not in a read-only
  directory, or on Windows while another process holds the file open).
  \<^verbatim>\<open>os.remove\<close> raises \<^verbatim>\<open>FileNotFoundError\<close> on a missing entry and
  \<^verbatim>\<open>PermissionError\<close> on one it may not unlink. \<^verbatim>\<open>file.save\<close> opens the path for
  writing and replaces the bytes of an entry that is already there.
\<close>

record blob =
  content :: string
  removable :: bool

type_synonym directory = "string \<rightharpoonup> blob"

definition os_path_exists :: "directory \<Rightarrow> string \<Rightarrow> bool" where
  "os_path_exists fs name = (fs name \<noteq> None)"

definition os_remove :: "directory \<Rightarrow> string \<Rightarrow> exn + directory" where
  "os_remove fs name =
     (case fs name of
        None \<Rightarrow> Inl FileNotFoundError
      | Some b \<Rightarrow> if removable b then Inr (fs(name := None)) else Inl PermissionError)"

definition file_save :: "directory \<Rightarrow> string \<Rightarrow> string \<Rightarrow> directory" where
  "file_save fs name bytes =
     fs(name \<mapsto> (case fs name of
                    None \<Rightarrow> \<lparr>content = bytes, removable = True\<rparr>
                  | Some b \<Rightarrow> b\<lparr>content := bytes\<rparr>))"

section \<open>Requests, responses and the state a handler sees\<close>

text \<open>
  The state is the database, the song directory and the \<^verbatim>\<open>user_id\<close> entry of the
  client's session (absent when \<open>None\<close>). A handler returns its outcome and the state
  it leaves behind: a response (body and status code), or the exception that escaped.
\<close>

record world =
  db :: database
  song_directory :: directory
  session_user_id :: "nat option"

datatype body =
    Error_json string
  | Message_json string
  | Uploaded_json nat "string option" "string option" int string
  | Song_json nat string string int string
  | Songs_json "(nat \<times> string \<times> string \<times> int \<times> string) list"
  | File_bytes string
  | Not_found_page

type_synonym response = "body \<times> nat"

type_synonym outcome = "exn + response"

text \<open>The uploaded part \<^verbatim>\<open>request.files['file']\<close>: its file name and its bytes.\<close>

datatype file_storage = FileStorage (filename: string) (stream: string)

record upload_request =
  files_file :: "file_storage option"
  form_title :: "string option"
  form_author :: "string option"
  form_duration :: "string option"

text \<open>Python's \<^verbatim>\<open>not x\<close> for a value that is \<^verbatim>\<open>None\<close> or a string.\<close>

definition py_not :: "string option \<Rightarrow> bool" where
  "py_not x = (case x of None \<Rightarrow> True | Some s \<Rightarrow> s = [])"

definition login_required :: "(world \<Rightarrow> outcome \<times> world) \<Rightarrow> world \<Rightarrow> outcome \<times> world" where
  "login_required f st =
     (if session_user_id st = None
      then (Inr (Error_json ''Authentication required'', 401), st)
      else f st)"

text \<open>\<^verbatim>\<open>auth_service.get_username_by_id(session.get('user_id'))\<close>.\<close>

definition session_username :: "world \<Rightarrow> string option" where
  "session_username st =
     (case session_user_id st of
        None \<Rightarrow> None
      | Some i \<Rightarrow> get_username_by_id (db st) i)"

section \<open>The handlers\<close>

definition register ::
  "collaborators \<Rightarrow> string \<Rightarrow> world \<Rightarrow> string option \<Rightarrow> string option \<Rightarrow> outcome \<times> world" where
  "register W salt st u p =
     (if py_not u \<or> py_not p
      then (Inr (Error_json ''Username and password are required'', 400), st)
      else case register_user W salt (db st) (the u) (the p) of
             (True, d') \<Rightarrow> (Inr (Message_json ''User registered successfully'', 201), st\<lparr>db := d'\<rparr>)
           | (False, d') \<Rightarrow> (Inr (Error_json ''Username already exists'', 409), st\<lparr>db := d'\<rparr>))"

definition login ::
  "collaborators \<Rightarrow> world \<Rightarrow> string option \<Rightarrow> string option \<Rightarrow> outcome \<times> world" where
  "login W st u p =
     (case verify_user W (db st) u p of
        Inl e \<Rightarrow> (Inl e, st)
      | Inr None \<Rightarrow> (Inr (Error_json ''Invalid username or password'', 401), st)
      | Inr (Some i) \<Rightarrow>
          if i \<noteq> 0
          then (Inr (Message_json ''Login successful'', 200), st\<lparr>session_user_id := Some i\<rparr>)
          else (Inr (Error_json ''Invalid username or password'', 401), st))"

definition logout :: "world \<Rightarrow> outcome \<times> world" where
  "logout =
     login_required (\<lambda>st.
       (Inr (Message_json ''Logged out successfully'', 200), st\<lparr>session_user_id := None\<rparr>))"

text \<open>
  \<^verbatim>\<open>upload_song\<close>, in the order of the source: the admin test, the file part, the
  duration, \<^verbatim>\<open>int(duration)\<close>, then the test \<^verbatim>\<open>file and allowed_file(file.filename)\<close>
  (a \<^verbatim>\<open>FileStorage\<close> is true when its file name is not empty); on success the blob is
  saved first and the row inserted after.
\<close>

definition upload_song :: "collaborators \<Rightarrow> upload_request \<Rightarrow> world \<Rightarrow> outcome \<times> world" where
  "upload_song W req =
     login_required (\<lambda>st.
       if session_username st \<noteq> Some ''admin''
       then (Inr (Error_json ''You do not have permission to upload songs'', 403), st)
       else case files_file req of
         None \<Rightarrow> (Inr (Error_json ''No file part'', 400), st)
       | Some file \<Rightarrow>
           if py_not (form_duration req) \<or> \<not> isdigit (the (form_duration req))
           then (Inr (Error_json ''Invalid duration provided'', 400), st)
           else case py_int (the (form_duration req)) of
             Inl e \<Rightarrow> (Inl e, st)
           | Inr dur \<Rightarrow>
               if filename file \<noteq> [] \<and> allowed_file W (filename file)
               then
                 (let name = secure_filename W (filename file);
                      st1 = st\<lparr>song_directory := file_save (song_directory st) name (stream file)\<rparr>
                  in case add_song (db st1) (form_title req) (form_author req) dur name of
                       Inl e \<Rightarrow> (Inl e, st1)
                     | Inr (i, d') \<Rightarrow>
                         (Inr (Uploaded_json i (form_title req) (form_author req) dur name, 200),
                          st1\<lparr>db := d'\<rparr>))
               else (Inr (Error_json ''Invalid file format'', 400), st))"

text \<open>
  \<^verbatim>\<open>delete_song\<close>: the row is looked up, the blob removed when
  \<^verbatim>\<open>os.path.exists\<close> sees it, then the row deleted and the change committed. An
  exception of \<^verbatim>\<open>os.remove\<close> leaves the function before the \<^verbatim>\<open>DELETE\<close>.
\<close>

definition delete_song :: "nat \<Rightarrow> world \<Rightarrow> outcome \<times> world" where
  "delete_song sid =
     login_required (\<lambda>st.
       if session_username st \<noteq> Some ''admin''
       then (Inr (Error_json ''You do not have permission to delete songs'', 403), st)
       else case find (\<lambda>r. song_id r = sid) (songs (db st)) of
         Some song \<Rightarrow>
           (case (if os_path_exists (song_directory st) (music_file_url song)
                  then os_remove (song_directory st) (music_file_url song)
                  else Inr (song_directory st)) of
              Inl e \<Rightarrow> (Inl e, st)
            | Inr fs' \<Rightarrow>
                (Inr (Message_json ''Song deleted successfully'', 200),
                 st\<lparr>song_directory := fs',
                    db := (db st)\<lparr>songs := filter (\<lambda>r. song_id r \<noteq> sid) (songs (db st))\<rparr>\<rparr>))
       | None \<Rightarrow> (Inr (Error_json ''Song not found'', 404), st))"

definition serve_song :: "nat \<Rightarrow> world \<Rightarrow> outcome \<times> world" where
  "serve_song sid =
     login_required (\<lambda>st.
       case get_song (db st) sid of
         Some (t, a, dur, url) \<Rightarrow> (Inr (Song_json sid t a dur url, 200), st)
       | None \<Rightarrow> (Inr (Not_found_page, 404), st))"

definition get_all_songs :: "world \<Rightarrow> outcome \<times> world" where
  "get_all_songs =
     login_required (\<lambda>st. (Inr (Songs_json (get_all_songs_rows (db st)), 200), st))"

text \<open>
  \<^verbatim>\<open>play_song\<close> has no \<^verbatim>\<open>login_required\<close>. \<^verbatim>\<open>send_from_directory\<close> answers 404
  when the directory has no such file.
\<close>

definition send_from_directory :: "directory \<Rightarrow> string \<Rightarrow> response" where
  "send_from_directory fs name =
     (case fs name of
        Some b \<Rightarrow> (File_bytes (content b), 200)
      | None \<Rightarrow> (Not_found_page, 404))"

definition play_song :: "nat \<Rightarrow> world \<Rightarrow> outcome \<times> world" where
  "play_song sid st =
     (case get_song (db st) sid of
        Some (t, a, dur, url) \<Rightarrow> (Inr (send_from_directory (song_directory st) url), st)
      | None \<Rightarrow> (Inr (Not_found_page, 404), st))"

section \<open>A small installation\<close>

text \<open>
  Concrete collaborators and a concrete state, used to run the handlers: the allow-list
  holds two extensions, the hash keeps salt and password apart with a dollar sign, and
  the file names used are already safe, so that \<^verbatim>\<open>secure_filename\<close> returns them
  as they are. Two users are registered, \<^verbatim>\<open>admin\<close> (id 1) and \<^verbatim>\<open>alice\<close> (id 2), and
  one song (id 1) whose blob is \<^verbatim>\<open>song.mp3\<close>.
\<close>

definition example_collaborators :: collaborators where
  "example_collaborators =
     \<lparr>ALLOWED_EXTENSIONS = [''mp3'', ''wav''],
      secure_filename = (\<lambda>s. s),
      generate_password_hash = (\<lambda>salt p. salt @ ''$'' @ p),
      check_password_hash = (\<lambda>h p. tl (dropWhile (\<lambda>c. c \<noteq> CHR ''$'') h) = p)\<rparr>"

definition example_db :: database where
  "example_db =
     \<lparr>songs = [\<lparr>song_id = 1, title = ''T'', author = ''A'', duration = 180,
                 music_file_url = ''song.mp3''\<rparr>],
      songs_seq = 1,
      users = [\<lparr>user_id = 1, username = ''admin'', password = ''s1$pw1''\<rparr>,
               \<lparr>user_id = 2, username = ''alice'', password = ''s2$secret''\<rparr>],
      users_seq = 2\<rparr>"

definition example_world :: "nat option \<Rightarrow> bool \<Rightarrow> world" where
  "example_world sess unlinkable =
     \<lparr>db = example_db,
      song_directory = [''song.mp3'' \<mapsto> \<lparr>content = ''bytes'', removable = unlinkable\<rparr>],
      session_user_id = sess\<rparr>"

definition example_upload :: "string option \<Rightarrow> string option \<Rightarrow> upload_request" where
  "example_upload t dur =
     \<lparr>files_file = Some (FileStorage ''new.mp3'' ''audio''),
      form_title = t, form_author = Some ''B'', form_duration = dur\<rparr>"

section \<open>Facts about row ids and lookups\<close>

lemma fold_max_ge_seq: "seq \<le> fold max ids (seq::nat)"
  by (induction ids arbitrary: seq) (auto intro: order_trans [OF max.cobounded2])

lemma fold_max_ge_elem: "x \<in> set ids \<Longrightarrow> x \<le> fold max ids (seq::nat)"
proof (induction ids arbitrary: seq)
  case Nil
  then show ?case by simp
next
  case (Cons a ids)
  show ?case
  proof (cases "x = a")
    case True
    have "a \<le> max a seq" by simp
    also have "\<dots> \<le> fold max ids (max a seq)" by (rule fold_max_ge_seq)
    finally show ?thesis using True by simp
  next
    case False
    with Cons show ?thesis by simp
  qed
qed

lemma next_rowid_fresh: "next_rowid seq ids \<notin> set ids"
proof
  assume "next_rowid seq ids \<in> set ids"
  then have "next_rowid seq ids \<le> fold max ids seq" by (rule fold_max_ge_elem)
  then show False by (simp add: next_rowid_def)
qed

lemma find_append_fresh:
  "\<forall>r \<in> set rows. \<not> P r \<Longrightarrow> P new \<Longrightarrow> find P (rows @ [new]) = Some new"
  by (induction rows) auto


lemma insert_user_fresh:
  assumes "\<not> list_ex (\<lambda>r. username r = u) (users d)"
  shows "insert_user d u h =
    Inr (d\<lparr>users := users d @
             [\<lparr>user_id = next_rowid (users_seq d) (map user_id (users d)),
               username = u, password = h\<rparr>],
           users_seq := next_rowid (users_seq d) (map user_id (users d))\<rparr>)"
  using assms by (simp add: insert_user_def Let_def)

lemma register_user_success:
  assumes "register_user W salt d u p = (True, d')"
  shows "\<not> list_ex (\<lambda>r. username r = u) (users d) \<and>
    users d' = users d @
      [\<lparr>user_id = next_rowid (users_seq d) (map user_id (users d)),
        username = u, password = generate_password_hash W salt p\<rparr>]"
  using assms
  by (auto simp: register_user_def insert_user_def Let_def split: if_splits)

lemma admin_has_session: "session_username st = Some name \<Longrightarrow> session_user_id st \<noteq> None"
  by (auto simp: session_username_def split: option.splits)

lemmas example_defs =
  example_collaborators_def example_db_def example_world_def example_upload_def

lemmas python_defs =
  isdigit_def isdigit_char_def code_point_def py_int_def decimal_char_def digit_value_def
  lower_def lower_char_def rsplit_dot_last_def py_not_def allowed_file_def

lemmas session_defs = login_required_def session_username_def get_username_by_id_def

section \<open>The catalog round trip\<close>

text \<open>
  C4. For all inputs (title, author, duration, ref): when
  \<^verbatim>\<open>add_song(title, author, duration, ref)\<close> returns an id, \<^verbatim>\<open>get_song(id)\<close> on the
  database it leaves returns exactly (title, author, duration, ref). And it does return
  one, with that round trip, whenever the duration fits in 64 bits.
\<close>

theorem add_then_get:
  "(add_song d (Some t) (Some a) dur url = Inr (i, d') \<longrightarrow>
      get_song d' i = Some (t, a, dur, url)) \<and>
   (- (2 ^ 63) \<le> dur \<and> dur < 2 ^ 63 \<longrightarrow>
      (\<exists>j e. add_song d (Some t) (Some a) dur url = Inr (j, e) \<and>
             get_song e j = Some (t, a, dur, url)))"
proof -
  let ?i = "next_rowid (songs_seq d) (map song_id (songs d))"
  let ?row = "\<lparr>song_id = ?i, title = t, author = a, duration = dur, music_file_url = url\<rparr>"
  have "\<forall>r \<in> set (songs d). \<not> song_id r = ?i"
    using next_rowid_fresh [of "songs_seq d" "map song_id (songs d)"]
    by (auto simp: image_iff)
  then have found: "find (\<lambda>r. song_id r = ?i) (songs d @ [?row]) = Some ?row"
    by (rule find_append_fresh) simp
  have round_trip: "get_song e j = Some (t, a, dur, url)"
    if "add_song d (Some t) (Some a) dur url = Inr (j, e)" for j e
  proof -
    from that have "j = ?i" and "songs e = songs d @ [?row]"
      by (auto simp: add_song_def Let_def split: if_splits)
    with found show ?thesis by (simp add: get_song_def)
  qed
  have returns: "\<exists>j e. add_song d (Some t) (Some a) dur url = Inr (j, e)"
    if "- (2 ^ 63) \<le> dur \<and> dur < 2 ^ 63"
    using that by (simp add: add_song_def Let_def)
  from round_trip returns show ?thesis by blast
qed

theorem add_then_get_witness:
  "\<exists>e. add_song example_db (Some ''N'') (Some ''B'') 200 ''new.mp3'' = Inr (2, e) \<and>
       get_song e 2 = Some (''N'', ''B'', 200, ''new.mp3'')"
proof -
  have range: "- (2 ^ 63) \<le> (200::int) \<and> (200::int) < 2 ^ 63"
    by simp
  from add_then_get [of example_db "''N''" "''B''" 200 "''new.mp3''"] range
  obtain j e where added: "add_song example_db (Some ''N'') (Some ''B'') 200 ''new.mp3'' = Inr (j, e)"
    and got: "get_song e j = Some (''N'', ''B'', 200, ''new.mp3'')"
    by blast
  from added have "j = 2"
    by (auto simp: add_song_def next_rowid_def example_db_def Let_def)
  with added got show ?thesis by blast
qed

section \<open>The authorization gate\<close>

text \<open>
  C1. Upload and delete succeed only with a session whose user is named \<^verbatim>\<open>admin\<close>:
  without a session they answer 401, with a session of anyone else 403, and in both
  cases the state stays as it was. Get and list answer 401 without a session and
  otherwise serve the request whoever the session's user is. Play serves the blob with
  no session at all.
\<close>

theorem authorization_gate:
  "(session_user_id st = None \<longrightarrow>
      upload_song W req st = (Inr (Error_json ''Authentication required'', 401), st) \<and>
      delete_song sid st = (Inr (Error_json ''Authentication required'', 401), st) \<and>
      serve_song sid st = (Inr (Error_json ''Authentication required'', 401), st) \<and>
      get_all_songs st = (Inr (Error_json ''Authentication required'', 401), st)) \<and>
   (session_user_id st \<noteq> None \<and> session_username st \<noteq> Some ''admin'' \<longrightarrow>
      upload_song W req st =
        (Inr (Error_json ''You do not have permission to upload songs'', 403), st) \<and>
      delete_song sid st =
        (Inr (Error_json ''You do not have permission to delete songs'', 403), st)) \<and>
   (fst (upload_song W req st) = Inr (b, 200) \<or> fst (delete_song sid st) = Inr (b, 200) \<longrightarrow>
      session_user_id st \<noteq> None \<and> session_username st = Some ''admin'') \<and>
   (session_user_id st \<noteq> None \<longrightarrow>
      serve_song sid st =
        (case get_song (db st) sid of
           Some (t, a, dur, url) \<Rightarrow> (Inr (Song_json sid t a dur url, 200), st)
         | None \<Rightarrow> (Inr (Not_found_page, 404), st)) \<and>
      get_all_songs st = (Inr (Songs_json (get_all_songs_rows (db st)), 200), st)) \<and>
   (session_user_id st = None \<and> get_song (db st) sid = Some (t', a', dur', url') \<and>
    song_directory st url' = Some bl \<longrightarrow>
      play_song sid st = (Inr (File_bytes (content bl), 200), st))"
proof -
  have unauth: "session_user_id st = None \<Longrightarrow> login_required f st =
      (Inr (Error_json ''Authentication required'', 401), st)" for f
    by (simp add: login_required_def)
  have auth: "session_user_id st \<noteq> None \<Longrightarrow> login_required f st = f st" for f
    by (auto simp: login_required_def)
  have p1: "session_user_id st = None \<longrightarrow>
      upload_song W req st = (Inr (Error_json ''Authentication required'', 401), st) \<and>
      delete_song sid st = (Inr (Error_json ''Authentication required'', 401), st) \<and>
      serve_song sid st = (Inr (Error_json ''Authentication required'', 401), st) \<and>
      get_all_songs st = (Inr (Error_json ''Authentication required'', 401), st)"
    by (simp add: upload_song_def delete_song_def serve_song_def get_all_songs_def unauth)
  have p2: "session_user_id st \<noteq> None \<and> session_username st \<noteq> Some ''admin'' \<longrightarrow>
      upload_song W req st =
        (Inr (Error_json ''You do not have permission to upload songs'', 403), st) \<and>
      delete_song sid st =
        (Inr (Error_json ''You do not have permission to delete songs'', 403), st)"
    by (simp add: upload_song_def delete_song_def auth)
  have p3: "fst (upload_song W req st) = Inr (b, 200) \<or> fst (delete_song sid st) = Inr (b, 200) \<longrightarrow>
      session_user_id st \<noteq> None \<and> session_username st = Some ''admin''"
  proof (cases "session_user_id st = None")
    case True
    with p1 show ?thesis by simp
  next
    case False
    show ?thesis
    proof (cases "session_username st = Some ''admin''")
      case True
      with False show ?thesis by simp
    next
      case False
      with \<open>session_user_id st \<noteq> None\<close> p2 show ?thesis by simp
    qed
  qed
  have p4: "session_user_id st \<noteq> None \<longrightarrow>
      serve_song sid st =
        (case get_song (db st) sid of
           Some (t, a, dur, url) \<Rightarrow> (Inr (Song_json sid t a dur url, 200), st)
         | None \<Rightarrow> (Inr (Not_found_page, 404), st)) \<and>
      get_all_songs st = (Inr (Songs_json (get_all_songs_rows (db st)), 200), st)"
    by (simp add: serve_song_def get_all_songs_def auth)
  have p5: "session_user_id st = None \<and> get_song (db st) sid = Some (t', a', dur', url') \<and>
    song_directory st url' = Some bl \<longrightarrow>
      play_song sid st = (Inr (File_bytes (content bl), 200), st)"
    by (simp add: play_song_def send_from_directory_def)
  from p1 p2 p3 p4 p5 show ?thesis by blast
qed

theorem authorization_gate_witness:
  "upload_song example_collaborators (example_upload (Some ''N'') (Some ''200''))
     (example_world None True) =
     (Inr (Error_json ''Authentication required'', 401), example_world None True) \<and>
   delete_song 1 (example_world (Some 2) True) =
     (Inr (Error_json ''You do not have permission to delete songs'', 403),
      example_world (Some 2) True) \<and>
   session_username (example_world (Some 1) True) = Some ''admin'' \<and>
   get_all_songs (example_world (Some 2) True) =
     (Inr (Songs_json (get_all_songs_rows (db (example_world (Some 2) True))), 200),
      example_world (Some 2) True) \<and>
   play_song 1 (example_world None True) =
     (Inr (File_bytes ''bytes'', 200), example_world None True)"
proof -
  have anonymous: "session_user_id (example_world None True) = None"
    by (simp add: example_world_def)
  have alice: "session_user_id (example_world (Some 2) True) \<noteq> None \<and>
      session_username (example_world (Some 2) True) \<noteq> Some ''admin''"
    by (simp add: session_defs example_defs)
  have deleted: "fst (delete_song 1 (example_world (Some 1) True)) =
      Inr (Message_json ''Song deleted successfully'', 200)"
    by (simp add: delete_song_def session_defs example_defs os_path_exists_def os_remove_def)
  have stored: "get_song (db (example_world None True)) 1 =
      Some (''T'', ''A'', 180, ''song.mp3'') \<and>
      song_directory (example_world None True) ''song.mp3'' =
        Some \<lparr>content = ''bytes'', removable = True\<rparr>"
    by (simp add: get_song_def example_defs)
  have c1: "upload_song example_collaborators (example_upload (Some ''N'') (Some ''200''))
     (example_world None True) =
     (Inr (Error_json ''Authentication required'', 401), example_world None True)"
    using authorization_gate [where st = "example_world None True"] anonymous by blast
  have c2: "delete_song 1 (example_world (Some 2) True) =
     (Inr (Error_json ''You do not have permission to delete songs'', 403),
      example_world (Some 2) True)"
    using authorization_gate [where st = "example_world (Some 2) True"] alice by blast
  have c3: "session_username (example_world (Some 1) True) = Some ''admin''"
    using authorization_gate [where st = "example_world (Some 1) True" and sid = 1
        and b = "Message_json ''Song deleted successfully''"] deleted
    by blast
  have c4: "get_all_songs (example_world (Some 2) True) =
     (Inr (Songs_json (get_all_songs_rows (db (example_world (Some 2) True))), 200),
      example_world (Some 2) True)"
    using authorization_gate [where st = "example_world (Some 2) True"] alice by blast
  have c5: "play_song 1 (example_world None True) =
     (Inr (File_bytes (content \<lparr>content = ''bytes'', removable = True\<rparr>), 200),
      example_world None True)"
    using authorization_gate [where st = "example_world None True" and sid = 1
        and t' = "''T''" and a' = "''A''" and dur' = 180 and url' = "''song.mp3''"
        and bl = "\<lparr>content = ''bytes'', removable = True\<rparr>"] anonymous stored
    by blast
  from c1 c2 c3 c4 c5 show ?thesis by simp
qed

section \<open>Delete\<close>



section \<open>Registration and verification\<close>

text \<open>
  C2. After \<^verbatim>\<open>register_user(username, password)\<close> has returned \<^verbatim>\<open>True\<close>, the table
  holds one more row, under a new id, and \<^verbatim>\<open>verify_user(username, password)\<close> returns
  that id, while \<^verbatim>\<open>verify_user(username, q)\<close> returns \<^verbatim>\<open>None\<close> for another password
  \<open>q\<close>. The hash is a collaborator; what the result needs of it are the two hypotheses:
  the hash made at registration verifies the password it was made from, and does not
  verify \<open>q\<close>.
\<close>

theorem verify_after_register:
  assumes reg: "register_user W salt d u p = (True, d')"
    and own: "check_password_hash W (generate_password_hash W salt p) p"
    and other: "\<not> check_password_hash W (generate_password_hash W salt p) q"
  shows "users d' = users d @
           [\<lparr>user_id = next_rowid (users_seq d) (map user_id (users d)),
             username = u, password = generate_password_hash W salt p\<rparr>] \<and>
         verify_user W d' (Some u) (Some p) =
           Inr (Some (next_rowid (users_seq d) (map user_id (users d)))) \<and>
         verify_user W d' (Some u) (Some q) = Inr None"
proof -
  let ?row = "\<lparr>user_id = next_rowid (users_seq d) (map user_id (users d)),
               username = u, password = generate_password_hash W salt p\<rparr>"
  from register_user_success [OF reg]
  have free: "\<not> list_ex (\<lambda>r. username r = u) (users d)" and rows: "users d' = users d @ [?row]"
    by simp_all
  from free have "\<forall>r \<in> set (users d). \<not> username r = u"
    by (simp add: list_ex_iff)
  then have found: "find (\<lambda>r. username r = u) (users d @ [?row]) = Some ?row"
    by (rule find_append_fresh) simp
  show ?thesis
    using own other by (simp add: verify_user_def rows found)
qed

theorem verify_after_register_witness:
  "verify_user example_collaborators
     (snd (register_user example_collaborators ''s3'' example_db ''bob'' ''pw3''))
     (Some ''bob'') (Some ''pw3'') = Inr (Some 3) \<and>
   verify_user example_collaborators
     (snd (register_user example_collaborators ''s3'' example_db ''bob'' ''pw3''))
     (Some ''bob'') (Some ''pw4'') = Inr None"
proof -
  have "fst (register_user example_collaborators ''s3'' example_db ''bob'' ''pw3'') = True"
    by (simp add: register_user_def insert_user_def Let_def example_defs)
  then have reg: "register_user example_collaborators ''s3'' example_db ''bob'' ''pw3'' =
      (True, snd (register_user example_collaborators ''s3'' example_db ''bob'' ''pw3''))"
    by (simp add: prod_eq_iff)
  have own: "check_password_hash example_collaborators
      (generate_password_hash example_collaborators ''s3'' ''pw3'') ''pw3''"
    by (simp add: example_collaborators_def)
  have other: "\<not> check_password_hash example_collaborators
      (generate_password_hash example_collaborators ''s3'' ''pw3'') ''pw4''"
    by (simp add: example_collaborators_def)
  have new_id: "next_rowid (users_seq example_db) (map user_id (users example_db)) = 3"
    by (simp add: next_rowid_def example_db_def)
  from verify_after_register [OF reg own other] show ?thesis
    by (simp only: new_id)
qed

text \<open>
  C5. Registering a user name that is not in the table yet succeeds; registering it
  again fails, whatever the passwords, and leaves the database, with the first user's
  stored hash, as the first call left it. Through the handler (which asks for a
  non-empty name and password) the answers are 201 and then 409.
\<close>

theorem register_twice:
  assumes free: "\<not> list_ex (\<lambda>r. username r = u) (users (db st))"
  shows "fst (register_user W s1 (db st) u p1) = True \<and>
         register_user W s2 (snd (register_user W s1 (db st) u p1)) u p2 =
           (False, snd (register_user W s1 (db st) u p1)) \<and>
         (u \<noteq> [] \<and> p1 \<noteq> [] \<and> p2 \<noteq> [] \<longrightarrow>
            fst (register W s1 st (Some u) (Some p1)) =
              Inr (Message_json ''User registered successfully'', 201) \<and>
            register W s2 (snd (register W s1 st (Some u) (Some p1))) (Some u) (Some p2) =
              (Inr (Error_json ''Username already exists'', 409),
               snd (register W s1 st (Some u) (Some p1))))"
proof -
  let ?i = "next_rowid (users_seq (db st)) (map user_id (users (db st)))"
  let ?d1 = "(db st)\<lparr>users := users (db st) @
      [\<lparr>user_id = ?i, username = u, password = generate_password_hash W s1 p1\<rparr>],
      users_seq := ?i\<rparr>"
  have first: "register_user W s1 (db st) u p1 = (True, ?d1)"
    by (simp add: register_user_def insert_user_fresh [OF free])
  have taken: "list_ex (\<lambda>r. username r = u) (users ?d1)"
    by (simp add: list_ex_iff)
  have second: "register_user W s2 ?d1 u p2 = (False, ?d1)"
    using taken by (simp add: register_user_def insert_user_def)
  have handlers: "fst (register W s1 st (Some u) (Some p1)) =
              Inr (Message_json ''User registered successfully'', 201) \<and>
            register W s2 (snd (register W s1 st (Some u) (Some p1))) (Some u) (Some p2) =
              (Inr (Error_json ''Username already exists'', 409),
               snd (register W s1 st (Some u) (Some p1)))"
    if "u \<noteq> [] \<and> p1 \<noteq> [] \<and> p2 \<noteq> []"
  proof -
    have r1: "register W s1 st (Some u) (Some p1) =
        (Inr (Message_json ''User registered successfully'', 201), st\<lparr>db := ?d1\<rparr>)"
      using that by (simp add: register_def py_not_def first)
    have r2: "register W s2 (st\<lparr>db := ?d1\<rparr>) (Some u) (Some p2) =
        (Inr (Error_json ''Username already exists'', 409), st\<lparr>db := ?d1\<rparr>)"
      using that second by (simp add: register_def py_not_def)
    show ?thesis by (simp only: r1 r2 fst_conv snd_conv simp_thms)
  qed
  have "fst (register_user W s1 (db st) u p1) = True"
    by (simp only: first fst_conv)
  moreover have "register_user W s2 (snd (register_user W s1 (db st) u p1)) u p2 =
           (False, snd (register_user W s1 (db st) u p1))"
    by (simp only: first snd_conv second)
  ultimately show ?thesis using handlers by blast
qed

theorem register_twice_witness:
  "fst (register example_collaborators ''s3'' (example_world None True) (Some ''bob'') (Some ''a'')) =
     Inr (Message_json ''User registered successfully'', 201) \<and>
   register example_collaborators ''s4''
     (snd (register example_collaborators ''s3'' (example_world None True) (Some ''bob'') (Some ''a'')))
     (Some ''bob'') (Some ''b'') =
     (Inr (Error_json ''Username already exists'', 409),
      snd (register example_collaborators ''s3'' (example_world None True) (Some ''bob'') (Some ''a'')))"
proof -
  have free: "\<not> list_ex (\<lambda>r. username r = ''bob'') (users (db (example_world None True)))"
    by (simp add: example_defs)
  have given: "''bob'' \<noteq> [] \<and> ''a'' \<noteq> [] \<and> ''b'' \<noteq> []"
    by simp
  from register_twice [OF free, of example_collaborators "''s3''" "''a''" "''s4''" "''b''"] given
  show ?thesis by blast
qed

text \<open>
  With a password that is a string, \<^verbatim>\<open>verify_user\<close> returns the same \<^verbatim>\<open>None\<close>, and
  the login handler the same 401 response with the state untouched, whether the user
  name is not in the table or is there with a hash that does not verify the password.
\<close>

lemma verify_same_for_str_password:
  assumes "find (\<lambda>r. username r = u) (users (db st)) = None \<or>
     (\<exists>r. find (\<lambda>r. username r = u) (users (db st)) = Some r \<and>
          \<not> check_password_hash W (password r) p)"
  shows "verify_user W (db st) (Some u) (Some p) = Inr None \<and>
         login W st (Some u) (Some p) =
           (Inr (Error_json ''Invalid username or password'', 401), st)"
proof -
  from assms have v: "verify_user W (db st) (Some u) (Some p) = Inr None"
    by (auto simp: verify_user_def)
  then show ?thesis by (simp add: login_def)
qed

text \<open>
  C6. The two failure causes are told apart when the request carries no password:
  for the unknown name \<^verbatim>\<open>bob\<close>, \<^verbatim>\<open>verify_user\<close> returns \<^verbatim>\<open>None\<close> and the login handler
  answers 401; for the registered name \<^verbatim>\<open>alice\<close>, \<^verbatim>\<open>verify_user\<close> ends in
  \<^verbatim>\<open>AttributeError\<close> and so does the handler.
\<close>

theorem login_tells_registered_name:
  "verify_user example_collaborators example_db (Some ''bob'') None = Inr None \<and>
   verify_user example_collaborators example_db (Some ''alice'') None = Inl AttributeError \<and>
   login example_collaborators (example_world None True) (Some ''bob'') None =
     (Inr (Error_json ''Invalid username or password'', 401), example_world None True) \<and>
   fst (login example_collaborators (example_world None True) (Some ''alice'') None) =
     Inl AttributeError"
  by (simp add: login_def verify_user_def example_defs)

section \<open>Upload validation\<close>

text \<open>
  What the three checks of \<^verbatim>\<open>upload_song\<close> do for the administrator, in their order:
  a request without a file part is refused first, then one whose duration is missing,
  empty or not all digits, then (the duration being decimal) one whose file name is empty
  or has no allowed extension; each refusal is a 400 response and leaves rows and blobs
  as they were.
\<close>

lemma upload_validation_order:
  assumes "session_username st = Some ''admin''"
  shows "files_file req = None \<longrightarrow>
           upload_song W req st = (Inr (Error_json ''No file part'', 400), st)"
    and "files_file req \<noteq> None \<and>
         (py_not (form_duration req) \<or> \<not> isdigit (the (form_duration req))) \<longrightarrow>
           upload_song W req st = (Inr (Error_json ''Invalid duration provided'', 400), st)"
    and "files_file req = Some f \<and> form_duration req = Some ds \<and> ds \<noteq> [] \<and>
         list_all decimal_char ds \<and> \<not> (filename f \<noteq> [] \<and> allowed_file W (filename f)) \<longrightarrow>
           upload_song W req st = (Inr (Error_json ''Invalid file format'', 400), st)"
proof -
  from assms have sess: "session_user_id st \<noteq> None"
    by (rule admin_has_session)
  have body: "login_required g st = g st" for g
    using sess by (auto simp: login_required_def)
  show "files_file req = None \<longrightarrow>
           upload_song W req st = (Inr (Error_json ''No file part'', 400), st)"
    using assms by (simp add: upload_song_def body)
  show "files_file req \<noteq> None \<and>
         (py_not (form_duration req) \<or> \<not> isdigit (the (form_duration req))) \<longrightarrow>
           upload_song W req st = (Inr (Error_json ''Invalid duration provided'', 400), st)"
    using assms by (auto simp: upload_song_def body)
  have digits: "list_all decimal_char ds \<Longrightarrow> list_all isdigit_char ds"
    by (induction ds) (auto simp: decimal_char_def isdigit_char_def)
  show "files_file req = Some f \<and> form_duration req = Some ds \<and> ds \<noteq> [] \<and>
         list_all decimal_char ds \<and> \<not> (filename f \<noteq> [] \<and> allowed_file W (filename f)) \<longrightarrow>
           upload_song W req st = (Inr (Error_json ''Invalid file format'', 400), st)"
    using assms digits by (auto simp: upload_song_def body py_not_def isdigit_def py_int_def)
qed

text \<open>
  C3. The duration check lets through a string that \<^verbatim>\<open>int\<close> cannot parse:
  \<^verbatim>\<open>isdigit\<close> holds of the superscript two (U+00B2), \<^verbatim>\<open>int\<close> raises
  \<^verbatim>\<open>ValueError\<close> on it, and the administrator's upload with that duration ends in the
  exception instead of the 400 response of an invalid duration. Nothing is stored.
\<close>

theorem upload_superscript_duration:
  "isdigit [CHR 0xB2] \<and>
   py_int [CHR 0xB2] = Inl ValueError \<and>
   upload_song example_collaborators (example_upload (Some ''N'') (Some [CHR 0xB2]))
     (example_world (Some 1) True) =
     (Inl ValueError, example_world (Some 1) True)"
  by (simp add: upload_song_def session_defs example_defs python_defs)

section \<open>Exceptions that leave a handler\<close>

text \<open>
  When \<^verbatim>\<open>os.remove\<close> refuses to unlink the blob of the song, the administrator's
  delete ends in \<^verbatim>\<open>PermissionError\<close> and changes nothing: the row stays.
\<close>

lemma delete_song_remove_raises:
  assumes "session_username st = Some ''admin''"
    and "find (\<lambda>r. song_id r = sid) (songs (db st)) = Some song"
    and "song_directory st (music_file_url song) = Some bl"
    and "\<not> removable bl"
  shows "delete_song sid st = (Inl PermissionError, st)"
proof -
  from assms(1) have "session_user_id st \<noteq> None"
    by (rule admin_has_session)
  then show ?thesis
    using assms
    by (auto simp: delete_song_def login_required_def os_path_exists_def os_remove_def)
qed

text \<open>
  C7. A delete of an existing song whose blob cannot be unlinked: the handler ends in
  \<^verbatim>\<open>PermissionError\<close>, the row of the song is still in the table, and there is no
  response at all, so no warning either.
\<close>

theorem delete_unremovable_blob:
  "delete_song 1 (example_world (Some 1) False) =
     (Inl PermissionError, example_world (Some 1) False) \<and>
   get_song (db (example_world (Some 1) False)) 1 = Some (''T'', ''A'', 180, ''song.mp3'')"
  by (simp add: delete_song_def session_defs example_defs get_song_def
      os_path_exists_def os_remove_def)

text \<open>
  An upload that passes the three checks with a duration in the 64-bit range, but
  without a title or without an author, ends in the \<^verbatim>\<open>IntegrityError\<close> of the
  \<^verbatim>\<open>NOT NULL\<close> constraint, after the blob has been saved.
\<close>

lemma upload_missing_field_raises:
  assumes "session_username st = Some ''admin''"
    and "files_file req = Some f"
    and "form_duration req = Some ds"
    and "py_int ds = Inr dur"
    and "dur < 2 ^ 63"
    and "filename f \<noteq> []"
    and "allowed_file W (filename f)"
    and "form_title req = None \<or> form_author req = None"
  shows "upload_song W req st =
    (Inl IntegrityError,
     st\<lparr>song_directory :=
          file_save (song_directory st) (secure_filename W (filename f)) (stream f)\<rparr>)"
proof -
  from assms(1) have sess: "session_user_id st \<noteq> None"
    by (rule admin_has_session)
  have body: "login_required g st = g st" for g
    using sess by (auto simp: login_required_def)
  from assms(4) have ds: "ds \<noteq> []" and dec: "list_all decimal_char ds"
    by (auto simp: py_int_def split: if_splits)
  have "list_all decimal_char xs \<Longrightarrow> list_all isdigit_char xs" for xs
    by (induction xs) (auto simp: decimal_char_def isdigit_char_def)
  with dec have dig: "isdigit ds"
    using ds by (simp add: isdigit_def)
  have nonneg: "0 \<le> foldl (\<lambda>a c. 10 * a + digit_value c) k xs"
    if "0 \<le> k" "list_all decimal_char xs" for k xs
    using that by (induction xs arbitrary: k) (auto simp: decimal_char_def digit_value_def)
  from assms(4) dec ds have "0 \<le> dur"
    using nonneg [of 0 ds] by (auto simp: py_int_def)
  with assms(5) have range: "\<not> (dur < - (2 ^ 63) \<or> 2 ^ 63 \<le> dur)"
    by simp
  have add: "add_song d (form_title req) (form_author req) dur url = Inl IntegrityError" for d url
    using assms(8) range by (auto simp: add_song_def split: option.splits)
  show ?thesis
    using assms(1-4,6,7) dig ds
    by (simp add: upload_song_def body py_not_def Let_def add)
qed

text \<open>
  C9. The administrator uploads \<^verbatim>\<open>new.mp3\<close> with duration \<^verbatim>\<open>200\<close> and an author but
  no title: the handler ends in \<^verbatim>\<open>IntegrityError\<close>, not in a response; the blob is in
  the song directory and no row was added.
\<close>

theorem upload_missing_title:
  "fst (upload_song example_collaborators (example_upload None (Some ''200''))
     (example_world (Some 1) True)) = Inl IntegrityError \<and>
   song_directory
     (snd (upload_song example_collaborators (example_upload None (Some ''200''))
        (example_world (Some 1) True))) ''new.mp3'' =
     Some \<lparr>content = ''audio'', removable = True\<rparr> \<and>
   db (snd (upload_song example_collaborators (example_upload None (Some ''200''))
        (example_world (Some 1) True))) = example_db"
  by (simp add: upload_song_def session_defs example_defs python_defs add_song_def file_save_def)

text \<open>
  Login with a missing field. Without a user name no row is found and the answer is the
  401 of wrong credentials, whatever the password field holds; so it is for a user name
  that is not in the table. With the name of a registered user and no password,
  \<^verbatim>\<open>check_password_hash\<close> is reached with \<^verbatim>\<open>None\<close> and the handler ends in its
  exception. No session is opened in any of these cases.
\<close>

lemma login_missing_username:
  "login W st None p = (Inr (Error_json ''Invalid username or password'', 401), st)"
  by (simp add: login_def verify_user_def)

lemma login_unknown_username:
  assumes "find (\<lambda>r. username r = u) (users (db st)) = None"
  shows "login W st (Some u) p = (Inr (Error_json ''Invalid username or password'', 401), st)"
  using assms by (simp add: login_def verify_user_def)

lemma login_missing_password_raises:
  assumes "find (\<lambda>r. username r = u) (users (db st)) = Some r"
  shows "login W st (Some u) None = (Inl AttributeError, st)"
  using assms by (simp add: login_def verify_user_def)

text \<open>
  C10. A login request that names the registered user \<^verbatim>\<open>alice\<close> and has no password
  ends in \<^verbatim>\<open>AttributeError\<close>, while the same user with a wrong password gets the 401
  response.
\<close>

theorem login_missing_password:
  "login example_collaborators (example_world None True) (Some ''alice'') None =
     (Inl AttributeError, example_world None True) \<and>
   login example_collaborators (example_world None True) (Some ''alice'') (Some ''wrong'') =
     (Inr (Error_json ''Invalid username or password'', 401), example_world None True)"
  by (simp add: login_def verify_user_def example_defs)

end
